theory Spec2Isabelle
  imports Main "HOL-Library.Sublist" "HOL-Library.AList"
begin

section \<open>Python strings\<close>

text \<open>
  Paths and JSON strings are \<open>string\<close>s: lists of 8-bit characters, each read as the code
  point of the same number (so the strings are those of Latin-1; a code point from 256 on
  has no character here). On these \<open>str.lower\<close> works character by character: it moves
  \<open>A\<close> to \<open>Z\<close> (65 to 90) and the capital letters 192 to 222, the multiplication sign
  215 apart, up by 32, and leaves every other character.
\<close>

definition lower_char :: "char \<Rightarrow> char" where
  "lower_char c =
     (let n = (of_char c :: nat)
      in if (65 \<le> n \<and> n \<le> 90) \<or> (192 \<le> n \<and> n \<le> 222 \<and> n \<noteq> 215)
         then char_of (n + 32) else c)"

definition lower :: "string \<Rightarrow> string" where
  "lower s = map lower_char s"

text \<open>\<open>pat in s\<close> for two strings: \<open>pat\<close> occurs in \<open>s\<close> as a contiguous substring.\<close>

fun contains :: "string \<Rightarrow> string \<Rightarrow> bool" where
  "contains pat [] = (pat = [])"
| "contains pat (c # cs) = (prefix pat (c # cs) \<or> contains pat cs)"

text \<open>\<open>s.split(sep)\<close> for a one-character separator: the result is never empty.\<close>

fun split_sep :: "char \<Rightarrow> string \<Rightarrow> string list" where
  "split_sep sep [] = [[]]"
| "split_sep sep (c # cs) =
     (if c = sep then [] # split_sep sep cs
      else (case split_sep sep cs of [] \<Rightarrow> [[c]] | w # ws \<Rightarrow> (c # w) # ws))"

text \<open>\<open>sep.join(xs)\<close>.\<close>

fun join_with :: "string \<Rightarrow> string list \<Rightarrow> string" where
  "join_with sep [] = []"
| "join_with sep [x] = x"
| "join_with sep (x # y # ys) = x @ sep @ join_with sep (y # ys)"

text \<open>\<open>s.rfind(c)\<close>: the index of the last occurrence of \<open>c\<close>, \<open>None\<close> for Python's \<open>-1\<close>.\<close>

definition rfind :: "char \<Rightarrow> string \<Rightarrow> nat option" where
  "rfind c s =
     (let after = takeWhile (\<lambda>x. x \<noteq> c) (rev s)
      in if length after = length s then None else Some (length s - length after - 1))"

text \<open>
  \<open>s.replace(old, new)\<close>: every non-overlapping occurrence, from the left. For an empty
  \<open>old\<close> Python puts \<open>new\<close> before every character and at the end.
\<close>

function str_replace :: "string \<Rightarrow> string \<Rightarrow> string \<Rightarrow> string" where
  "str_replace old new s =
     (if old = [] then new @ concat (map (\<lambda>c. c # new) s)
      else if s = [] then []
      else if prefix old s then new @ str_replace old new (drop (length old) s)
      else hd s # str_replace old new (tl s))"
  by pat_completeness auto
termination
  by (relation "measure (\<lambda>(old, new, s). length s)") auto

section \<open>pathlib: pure POSIX paths\<close>

text \<open>
  \<open>Path(s)\<close> of CPython 3.11 on POSIX, as far as the hooks use it: a root (\<open>''''\<close>,
  \<open>''/''\<close>, or \<open>''//''\<close> for exactly two leading slashes) and the components after it, with
  empty components and \<open>''.''\<close> dropped and \<open>''..''\<close> kept. Nothing here reads the
  file system.
\<close>

record path =
  root :: string
  tail :: "string list"

definition splitroot :: "string \<Rightarrow> string \<times> string" where
  "splitroot p =
     (if take 1 p \<noteq> ''/'' then ('''', p)
      else if take 1 (drop 1 p) \<noteq> ''/'' \<or> take 1 (drop 2 p) = ''/'' then (''/'', drop 1 p)
      else (''//'', drop 2 p))"

definition Path :: "string \<Rightarrow> path" where
  "Path s =
     (let (rt, rel) = splitroot s
      in \<lparr>root = rt, tail = filter (\<lambda>x. x \<noteq> [] \<and> x \<noteq> ''.'') (split_sep CHR ''/'' rel)\<rparr>)"

text \<open>\<open>posixpath.join\<close>, and \<open>Path(*segments)\<close>, which joins its arguments and parses the result.\<close>

definition posix_join :: "string \<Rightarrow> string \<Rightarrow> string" where
  "posix_join a b =
     (if take 1 b = ''/'' then b
      else if a = [] \<or> last a = CHR ''/'' then a @ b
      else a @ ''/'' @ b)"

definition Path_of_parts :: "string list \<Rightarrow> path" where
  "Path_of_parts segs = (case segs of [] \<Rightarrow> Path [] | a # bs \<Rightarrow> Path (foldl posix_join a bs))"

definition parts :: "path \<Rightarrow> string list" where
  "parts p = (if root p = [] then [] else [root p]) @ tail p"

definition name :: "path \<Rightarrow> string" where
  "name p = (if tail p = [] then [] else last (tail p))"

definition suffix_of :: "path \<Rightarrow> string" where
  "suffix_of p =
     (case rfind CHR ''.'' (name p) of
        None \<Rightarrow> []
      | Some i \<Rightarrow> if 0 < i \<and> i + 1 < length (name p) then drop i (name p) else [])"

definition stem :: "path \<Rightarrow> string" where
  "stem p =
     (case rfind CHR ''.'' (name p) of
        None \<Rightarrow> name p
      | Some i \<Rightarrow> if 0 < i \<and> i + 1 < length (name p) then take i (name p) else name p)"

definition parent :: "path \<Rightarrow> path" where
  "parent p = (if tail p = [] then p else p\<lparr>tail := butlast (tail p)\<rparr>)"

text \<open>\<open>p / key\<close>: an absolute \<open>key\<close> replaces \<open>p\<close>, a relative one is appended.\<close>

definition path_div :: "path \<Rightarrow> string \<Rightarrow> path" where
  "path_div p key =
     (if root (Path key) \<noteq> [] then Path key else p\<lparr>tail := tail p @ tail (Path key)\<rparr>)"

text \<open>\<open>str(p)\<close>: the empty path prints as \<open>''.''\<close>.\<close>

definition str :: "path \<Rightarrow> string" where
  "str p =
     (if root p \<noteq> [] then root p @ join_with ''/'' (tail p)
      else if tail p = [] then ''.''
      else join_with ''/'' (tail p))"



section \<open>Classifying a path (\<open>tdd_enforcer.py\<close>)\<close>

definition test_patterns :: "string list" where
  "test_patterns = [''.test.'', ''.spec.'', ''_test.'', ''_spec.'', ''test_'', ''spec_'']"

definition is_test_file :: "string \<Rightarrow> bool" where
  "is_test_file file_path =
     (let p = Path file_path; nm = lower (name p)
      in if ''__tests__'' \<in> set (parts p) then True
         else if ''tests'' \<in> set (parts p) then True
         else list_ex (\<lambda>pattern. contains pattern nm) test_patterns)"

definition extensions :: "string list" where
  "extensions = [''.ts'', ''.tsx'', ''.js'', ''.jsx'', ''.mjs'', ''.cjs'']"

definition config_patterns :: "string list" where
  "config_patterns =
     [''config.'', ''.config.'', ''rc.'', ''.d.ts'', ''vite.config'', ''vitest.config'',
      ''jest.config'', ''tsconfig'', ''eslint'', ''prettier'']"

definition is_impl_file :: "string \<Rightarrow> bool" where
  "is_impl_file file_path =
     (let p = Path file_path
      in if suffix_of p \<notin> set extensions then False
         else if is_test_file file_path then False
         else \<not> list_ex (\<lambda>pattern. contains pattern (lower (name p))) config_patterns)"

section \<open>Candidate test paths\<close>

text \<open>\<open>xs.index(x)\<close>: the first position of \<open>x\<close>; \<open>None\<close> where Python raises ValueError.\<close>

fun index_of :: "'a \<Rightarrow> 'a list \<Rightarrow> nat option" where
  "index_of x [] = None"
| "index_of x (y # ys) = (if x = y then Some 0 else map_option Suc (index_of x ys))"

definition find_matching_tests :: "string \<Rightarrow> string list" where
  "find_matching_tests impl_path =
     (let p = Path impl_path; st = stem p; sf = suffix_of p; par = parent p;
          same_dir =
            [path_div par (st @ ''.test'' @ sf),
             path_div par (st @ ''.spec'' @ sf),
             path_div par (st @ ''_test'' @ sf),
             path_div par (st @ ''_spec'' @ sf)];
          tests_dir =
            [path_div (path_div par ''__tests__'') (st @ ''.test'' @ sf),
             path_div (path_div par ''__tests__'') (st @ ''.spec'' @ sf),
             path_div (path_div par ''__tests__'') (st @ sf)];
          mirrored =
            (if ''src'' \<in> set (parts par) then
               (case index_of ''src'' (parts par) of
                  None \<Rightarrow> []
                | Some src_idx \<Rightarrow>
                    (let tests_parent = Path_of_parts ((parts par)[src_idx := ''tests''])
                     in [path_div tests_parent (st @ ''.test'' @ sf),
                         path_div tests_parent (st @ ''.spec'' @ sf)]))
             else [])
      in map str (same_dir @ tests_dir @ mirrored))"

section \<open>JSON documents and Python's operations on them\<close>

text \<open>
  A document as \<open>json.load\<close> returns it: \<open>None\<close>, a bool, an int, a float, a str, a list
  or a dict (an association list in insertion order; \<open>map_of\<close> is the lookup). Of the
  floats only the three that no JSON text can hold are kept: \<open>json.load\<close> reads the words
  \<open>NaN\<close>, \<open>Infinity\<close> and \<open>-Infinity\<close> although they are not JSON. Finite floats are left
  out. The hooks are dynamically typed, so every operation on a document says which
  exception Python raises on a value of the wrong type.
\<close>

datatype nonfinite = NaN | Infinity | NegInfinity

datatype json =
    JNull
  | JBool bool
  | JInt int
  | JFloat nonfinite
  | JStr string
  | JList "json list"
  | JDict "(string \<times> json) list"

text \<open>A document that a valid JSON text can denote: none of the three words inside.\<close>

fun valid_json :: "json \<Rightarrow> bool" where
  "valid_json (JFloat f) = False"
| "valid_json (JList xs) = list_all valid_json xs"
| "valid_json (JDict kvs) = list_all (\<lambda>kv. valid_json (snd kv)) kvs"
| "valid_json _ = True"

datatype exn =
    KeyError | TypeError | AttributeError
  | UnicodeDecodeError | RecursionError | ValueError | OSError

text \<open>\<open>bool(v)\<close>, which \<open>if not v\<close> tests.\<close>

fun truthy :: "json \<Rightarrow> bool" where
  "truthy JNull = False"
| "truthy (JBool b) = b"
| "truthy (JInt n) = (n \<noteq> 0)"
| "truthy (JFloat f) = True"
| "truthy (JStr s) = (s \<noteq> [])"
| "truthy (JList xs) = (xs \<noteq> [])"
| "truthy (JDict kvs) = (kvs \<noteq> [])"

text \<open>\<open>obj.get(key, default)\<close>: only a dict has the method.\<close>

fun py_get :: "json \<Rightarrow> string \<Rightarrow> json \<Rightarrow> exn + json" where
  "py_get (JDict kvs) k d = Inr (case map_of kvs k of None \<Rightarrow> d | Some v \<Rightarrow> v)"
| "py_get _ k d = Inl AttributeError"

text \<open>\<open>obj[key]\<close> for a string key: KeyError on a dict without it, TypeError on anything else.\<close>

fun py_getitem :: "json \<Rightarrow> string \<Rightarrow> exn + json" where
  "py_getitem (JDict kvs) k = (case map_of kvs k of None \<Rightarrow> Inl KeyError | Some v \<Rightarrow> Inr v)"
| "py_getitem _ k = Inl TypeError"

text \<open>
  \<open>x in obj\<close> for a string \<open>x\<close>: an element of a list, a substring of a str, a key of a
  dict; the other values are not iterable.
\<close>

fun py_contains :: "string \<Rightarrow> json \<Rightarrow> exn + bool" where
  "py_contains x (JList xs) = Inr (JStr x \<in> set xs)"
| "py_contains x (JStr t) = Inr (contains x t)"
| "py_contains x (JDict kvs) = Inr (x \<in> set (map fst kvs))"
| "py_contains x _ = Inl TypeError"

text \<open>\<open>obj.append(x)\<close>: only a list has the method.\<close>

fun py_append :: "json \<Rightarrow> string \<Rightarrow> exn + json" where
  "py_append (JList xs) x = Inr (JList (xs @ [JStr x]))"
| "py_append _ x = Inl AttributeError"

text \<open>
  The dict \<open>state\<close> after the list under \<open>key\<close> has been mutated in place: the same keys in
  the same order, with the new list under \<open>key\<close>.
\<close>

fun with_item :: "json \<Rightarrow> string \<Rightarrow> json \<Rightarrow> json" where
  "with_item (JDict kvs) k v = JDict (AList.update k v kvs)"
| "with_item j k v = j"

text \<open>
  \<open>set(obj)\<close>, as the list of its distinct elements in order of first occurrence (CPython
  iterates a set in an order of its own; the results below that go through this loop are
  stated for stores whose entries are all strings, where the order does not matter). A
  list or dict element is unhashable.
\<close>

fun hashable :: "json \<Rightarrow> bool" where
  "hashable (JList xs) = False"
| "hashable (JDict kvs) = False"
| "hashable _ = True"

fun py_set :: "json \<Rightarrow> exn + json list" where
  "py_set (JList xs) = (if list_all hashable xs then Inr (remdups xs) else Inl TypeError)"
| "py_set (JStr t) = Inr (remdups (map (\<lambda>c. JStr [c]) t))"
| "py_set (JDict kvs) = Inr (remdups (map (\<lambda>kv. JStr (fst kv)) kvs))"
| "py_set _ = Inl TypeError"

section \<open>The session state store\<close>

text \<open>
  The file \<open>~/.claude/data/tdd_session_state.json\<close>, by what the hooks can do with it.
  What is at the path: no file; text that is not JSON; something on which loading raises
  an exception that \<open>load_state\<close> does not catch (bytes that do not decode, text nested
  beyond the recursion limit, an integer too long to convert, a path that cannot be
  examined); or a document. Whether an existing file can be read: if not, \<open>read_text\<close> raises
  IOError, which \<open>load_state\<close> catches. Whether the file can be written: if not, \<open>mkdir\<close> or
  \<open>write_text\<close> raises OSError, which nothing catches. A write replaces what is at the path
  and leaves the permissions of an existing file; a file it creates can be read. The text
  \<open>json.dumps(state, indent=2)\<close> written is identified with the document it parses to.
\<close>

datatype file_content = NoFile | NotJson | Breaks exn | Document json

record store_file =
  content :: file_content
  readable :: bool
  writable :: bool

text \<open>The two store files of a working installation: no file yet, and a document.\<close>

definition Missing :: store_file where
  "Missing = \<lparr>content = NoFile, readable = True, writable = True\<rparr>"

definition Stored :: "json \<Rightarrow> store_file" where
  "Stored j = \<lparr>content = Document j, readable = True, writable = True\<rparr>"

definition default_state :: json where
  "default_state = JDict [(''test_files_modified'', JList []), (''session_id'', JNull)]"

definition load_state :: "store_file \<Rightarrow> exn + json" where
  "load_state s =
     (case content s of
        NoFile \<Rightarrow> Inr default_state
      | NotJson \<Rightarrow> Inr default_state
      | Breaks e \<Rightarrow> if readable s then Inl e else Inr default_state
      | Document j \<Rightarrow> if readable s then Inr j else Inr default_state)"

definition save_state :: "json \<Rightarrow> store_file \<Rightarrow> exn + store_file" where
  "save_state state s =
     (if writable s
      then Inr (s\<lparr>content := Document state, readable := (readable s \<or> content s = NoFile)\<rparr>)
      else Inl OSError)"

section \<open>The enforcement hook (\<open>tdd_enforcer.py\<close>, \<open>main\<close>)\<close>

text \<open>
  What one run of a hook leaves behind: the documents it printed (each by
  \<open>print(json.dumps(...))\<close>), the store file afterwards, and the exception that ended the
  run if one escaped \<open>main\<close>.
\<close>

record outcome =
  printed :: "json list"
  store_after :: store_file
  raised :: "exn option"

definition emit :: "json \<Rightarrow> store_file \<Rightarrow> outcome" where
  "emit doc s = \<lparr>printed = [doc], store_after = s, raised = None\<rparr>"

definition raise :: "exn \<Rightarrow> store_file \<Rightarrow> outcome" where
  "raise e s = \<lparr>printed = [], store_after = s, raised = Some e\<rparr>"

definition allow :: json where
  "allow = JDict [(''decision'', JStr ''allow'')]"

definition block_reason :: "string \<Rightarrow> string" where
  "block_reason suggested_test =
     ''TDD Violation: Write test first!\<newline>\<newline>You're trying to write implementation code without a test.\<newline>\<newline>Suggested test file: ''
     @ suggested_test
     @ ''\<newline>\<newline>Write and save the test file first, then you can write the implementation.''"

definition block :: "string \<Rightarrow> json" where
  "block suggested_test =
     JDict [(''decision'', JStr ''block''), (''reason'', JStr (block_reason suggested_test))]"

text \<open>
  \<open>normalize_path\<close> is \<open>str(Path(file_path).resolve())\<close>, which reads the working
  directory and the symbolic links of the file system. \<open>main\<close> takes it as the function
  \<open>resolve\<close> of the process it runs in; \<open>realpath\<close> below is such a function. It is a
  total function here: a path on which \<open>resolve\<close> itself raises (a NUL character, a loop
  of symbolic links) is not modelled.
\<close>

type_synonym resolver = "string \<Rightarrow> string"

definition normalize_path :: "resolver \<Rightarrow> string \<Rightarrow> string" where
  "normalize_path resolve file_path = resolve file_path"

text \<open>The inner loop (lines 174-177): \<open>Path(modified)\<close> raises TypeError on a non-string.\<close>

fun name_matches :: "string \<Rightarrow> json list \<Rightarrow> exn + bool" where
  "name_matches test_path [] = Inr False"
| "name_matches test_path (JStr modified # ms) =
     (if lower (name (Path modified)) = lower (name (Path test_path)) then Inr True
      else name_matches test_path ms)"
| "name_matches test_path (_ # ms) = Inl TypeError"

text \<open>The outer loop (lines 168-177): \<open>Inr True\<close> when some candidate lets the write through.\<close>

fun test_was_modified :: "resolver \<Rightarrow> json list \<Rightarrow> string list \<Rightarrow> exn + bool" where
  "test_was_modified resolve modified_tests [] = Inr False"
| "test_was_modified resolve modified_tests (test_path # rest) =
     (if JStr (normalize_path resolve test_path) \<in> set modified_tests then Inr True
      else (case name_matches test_path modified_tests of
              Inl e \<Rightarrow> Inl e
            | Inr found \<Rightarrow>
                if found then Inr True else test_was_modified resolve modified_tests rest))"

text \<open>
  Lines 148-185: \<open>main\<close> from the point where \<open>state\<close> has been loaded. \<open>s\<close> is the store
  file at that moment; only \<open>save_state\<close> changes it.
\<close>

definition enforce :: "resolver \<Rightarrow> json \<Rightarrow> json \<Rightarrow> store_file \<Rightarrow> outcome" where
  "enforce resolve file_path_value state s =
     (case file_path_value of
        JStr file_path \<Rightarrow>
          (let normalized_path = normalize_path resolve file_path in
           if is_test_file file_path then
             (case py_getitem state ''test_files_modified'' of
                Inl e \<Rightarrow> raise e s
              | Inr recorded \<Rightarrow>
                  (case py_contains normalized_path recorded of
                     Inl e \<Rightarrow> raise e s
                   | Inr present \<Rightarrow>
                       if \<not> present then
                         (case py_append recorded normalized_path of
                            Inl e \<Rightarrow> raise e s
                          | Inr recorded' \<Rightarrow>
                              (case save_state
                                      (with_item state ''test_files_modified'' recorded') s of
                                 Inl e \<Rightarrow> raise e s
                               | Inr s' \<Rightarrow> emit allow s'))
                       else emit allow s))
           else if \<not> is_impl_file file_path then emit allow s
           else
             (let possible_tests = find_matching_tests file_path in
              case py_get state ''test_files_modified'' (JList []) of
                Inl e \<Rightarrow> raise e s
              | Inr recorded \<Rightarrow>
                  (case py_set recorded of
                     Inl e \<Rightarrow> raise e s
                   | Inr modified_tests \<Rightarrow>
                       (case test_was_modified resolve modified_tests possible_tests of
                          Inl e \<Rightarrow> raise e s
                        | Inr found \<Rightarrow>
                            if found then emit allow s
                            else
                              (let suggested_test =
                                     (if possible_tests \<noteq> [] then hd possible_tests
                                      else str_replace ''.ts'' ''.test.ts'' file_path)
                               in emit (block suggested_test) s)))))
      | _ \<Rightarrow> raise TypeError s)"

text \<open>
  Standard input, by what \<open>json.load(sys.stdin)\<close> does with it: it raises JSONDecodeError,
  which line 134 catches; it raises another exception, which nothing catches
  (UnicodeDecodeError on bytes that do not decode, RecursionError on text nested beyond the
  recursion limit, ValueError on an integer too long to convert); or it returns a document.
  The document need not come from valid JSON: the text \<open>NaN\<close> gives \<open>JFloat NaN\<close>.
\<close>

datatype stdin = StdinMalformed | StdinRaises exn | StdinJson json

definition main :: "resolver \<Rightarrow> stdin \<Rightarrow> store_file \<Rightarrow> outcome" where
  "main resolve input s =
     (case input of
        StdinMalformed \<Rightarrow> emit allow s
      | StdinRaises e \<Rightarrow> raise e s
      | StdinJson input_data \<Rightarrow>
          (case py_get input_data ''tool_input'' (JDict []) of
             Inl e \<Rightarrow> raise e s
           | Inr tool_input \<Rightarrow>
               (case py_get tool_input ''file_path'' (JStr []) of
                  Inl e \<Rightarrow> raise e s
                | Inr file_path \<Rightarrow>
                    if \<not> truthy file_path then emit allow s
                    else
                      (case load_state s of
                         Inl e \<Rightarrow> raise e s
                       | Inr state \<Rightarrow> enforce resolve file_path state s))))"

section \<open>The session-start hook (\<open>session_start_tdd.py\<close>, \<open>main\<close>)\<close>



section \<open>Standard output\<close>

text \<open>
  \<open>json.dumps(doc)\<close> with its defaults: \<open>'', ''\<close> between items, \<open>'': ''\<close> after a key, and
  strings escaped to ASCII. A character is read as the code point of the same number.
  \<open>print\<close> ends each document with a newline.
\<close>

definition hex_digit :: "nat \<Rightarrow> char" where
  "hex_digit n = ''0123456789abcdef'' ! (n mod 16)"

definition escape_char :: "char \<Rightarrow> string" where
  "escape_char c =
     (let n = (of_char c :: nat) in
      if n = 34 then [CHR 0x5C, CHR 0x22]
      else if n = 92 then [CHR 0x5C, CHR 0x5C]
      else if n = 10 then [CHR 0x5C, CHR ''n'']
      else if n = 13 then [CHR 0x5C, CHR ''r'']
      else if n = 9 then [CHR 0x5C, CHR ''t'']
      else if n = 8 then [CHR 0x5C, CHR ''b'']
      else if n = 12 then [CHR 0x5C, CHR ''f'']
      else if 32 \<le> n \<and> n \<le> 126 then [c]
      else [CHR 0x5C, CHR ''u'', CHR ''0'', CHR ''0'', hex_digit (n div 16), hex_digit (n mod 16)])"

definition dumps_str :: "string \<Rightarrow> string" where
  "dumps_str s = [CHR 0x22] @ concat (map escape_char s) @ [CHR 0x22]"

fun digits :: "nat \<Rightarrow> string" where
  "digits n = (if n < 10 then [char_of (48 + n)] else digits (n div 10) @ [char_of (48 + n mod 10)])"

definition dumps_int :: "int \<Rightarrow> string" where
  "dumps_int i = (if i < 0 then ''-'' @ digits (nat (- i)) else digits (nat i))"

fun dumps :: "json \<Rightarrow> string" where
  "dumps JNull = ''null''"
| "dumps (JBool b) = (if b then ''true'' else ''false'')"
| "dumps (JInt i) = dumps_int i"
| "dumps (JFloat NaN) = ''NaN''"
| "dumps (JFloat Infinity) = ''Infinity''"
| "dumps (JFloat NegInfinity) = ''-Infinity''"
| "dumps (JStr s) = dumps_str s"
| "dumps (JList xs) = ''['' @ join_with '', '' (map dumps xs) @ '']''"
| "dumps (JDict kvs) =
     ''{'' @ join_with '', '' (map (\<lambda>kv. dumps_str (fst kv) @ '': '' @ dumps (snd kv)) kvs) @ ''}''"

definition stdout :: "outcome \<Rightarrow> string" where
  "stdout out = concat (map (\<lambda>doc. dumps doc @ [CHR 0x0A]) (printed out))"

section \<open>A file system for \<open>resolve\<close>\<close>

text \<open>
  \<open>Path.resolve\<close> (\<open>os.path.realpath\<close>) on a file system given by the working directory of
  the process and its symbolic links, each the components of an absolute path. The
  working directory and the link targets are canonical (no link on the way and none at
  the end), so a link is followed in one step. A relative path starts at the working
  directory; \<open>''..''\<close> drops the last component of the path resolved so far.
\<close>

record filesystem =
  cwd :: "string list"
  links :: "(string list \<times> string list) list"

fun walk :: "(string list \<times> string list) list \<Rightarrow> string list \<Rightarrow> string list \<Rightarrow> string list" where
  "walk lk cur [] = cur"
| "walk lk cur (c # rest) =
     (if c = [] \<or> c = ''.'' then walk lk cur rest
      else if c = ''..'' then walk lk (butlast cur) rest
      else (case map_of lk (cur @ [c]) of
              None \<Rightarrow> walk lk (cur @ [c]) rest
            | Some target \<Rightarrow> walk lk target rest))"

definition realpath :: "filesystem \<Rightarrow> resolver" where
  "realpath fs p =
     ''/'' @ join_with ''/''
       (walk (links fs) (if take 1 p = ''/'' then [] else cwd fs) (split_sep CHR ''/'' p))"

section \<open>Two runs of the enforcement hook on one store file\<close>


datatype proc = Ready | Loaded json json | Finished outcome



record shared =
  first_proc :: proc
  second_proc :: proc
  store_file :: store_file



section \<open>Vocabulary of the specification\<close>

text \<open>
  The request of a write to \<open>file_path\<close>, with nothing but the nested field that locates
  the target.
\<close>

definition write_request :: "string \<Rightarrow> stdin" where
  "write_request file_path =
     StdinJson (JDict [(''tool_input'', JDict [(''file_path'', JStr file_path)])])"


text \<open>
  The recorded-test list of a store file, as the hooks see it: what stands under
  \<open>test_files_modified\<close> in the state that \<open>load_state\<close> returns, when that is a dict with
  a list there, and nothing otherwise.
\<close>

definition recorded :: "store_file \<Rightarrow> json list" where
  "recorded s =
     (case load_state s of
        Inr (JDict kvs) \<Rightarrow>
          (case map_of kvs ''test_files_modified'' of Some (JList xs) \<Rightarrow> xs | _ \<Rightarrow> [])
      | _ \<Rightarrow> [])"








section \<open>Example environments\<close>

text \<open>A project checked out at \<open>/home/dev/project\<close>, with no symbolic links.\<close>

definition project_fs :: filesystem where
  "project_fs = \<lparr>cwd = [''home'', ''dev'', ''project''], links = []\<rparr>"




text \<open>
  One file system seen from two working directories. In the checkout \<open>/work/a\<close> the test
  file \<open>src/math.test.ts\<close> is a symbolic link to a shared file.
\<close>

definition checkout_a :: filesystem where
  "checkout_a =
     \<lparr>cwd = [''work'', ''a''],
      links = [([''work'', ''a'', ''src'', ''math.test.ts''],
                [''work'', ''shared'', ''checks'', ''arith.ts''])]\<rparr>"

definition checkout_b :: filesystem where
  "checkout_b =
     \<lparr>cwd = [''work'', ''b''],
      links = [([''work'', ''a'', ''src'', ''math.test.ts''],
                [''work'', ''shared'', ''checks'', ''arith.ts''])]\<rparr>"

definition shared_store :: store_file where
  "shared_store =
     Stored (JDict [(''test_files_modified'', JList [JStr ''/work/shared/checks/arith.ts'']),
                    (''session_id'', JNull)])"

section \<open>Properties\<close>

subsection \<open>Classification\<close>



lemma is_impl_file_not_test: "is_impl_file p \<Longrightarrow> \<not> is_test_file p"
  by (auto simp: is_impl_file_def Let_def split: if_splits)



subsection \<open>The running example: \<open>src/utils/math.ts\<close> and its test\<close>

lemma is_test_file_math_test: "is_test_file ''src/utils/math.test.ts''"
  by code_simp

lemma is_impl_file_math: "is_impl_file ''src/utils/math.ts''"
  by code_simp


lemma find_matching_tests_math:
  "find_matching_tests ''src/utils/math.ts'' =
     [''src/utils/math.test.ts'', ''src/utils/math.spec.ts'',
      ''src/utils/math_test.ts'', ''src/utils/math_spec.ts'',
      ''src/utils/__tests__/math.test.ts'', ''src/utils/__tests__/math.spec.ts'',
      ''src/utils/__tests__/math.ts'',
      ''tests/utils/math.test.ts'', ''tests/utils/math.spec.ts'']"
  by code_simp

subsection \<open>Store files\<close>


lemma load_state_Stored: "load_state (Stored j) = Inr j"
  by (simp add: load_state_def Stored_def)










subsection \<open>From \<open>main\<close> to the decision\<close>



subsection \<open>Writing a test file\<close>






subsection \<open>Writing an implementation file\<close>








subsection \<open>The store across a run\<close>








subsection \<open>Reset\<close>





subsection \<open>Parsed paths and candidate test paths\<close>

lemma split_sep_nonempty: "split_sep sep s \<noteq> []"
  by (induction s) (auto split: list.splits)

































subsection \<open>Paths that are not source files\<close>




subsection \<open>Input that is not JSON\<close>

text \<open>
  C8, as stated, fails, in the output and in the inputs it covers. On text that
  \<open>json.load\<close> rejects with JSONDecodeError the hook prints what
  \<open>print(json.dumps({"decision": "allow"}))\<close> prints: \<open>json.dumps\<close> puts a space after the
  colon and \<open>print\<close> ends the line, so the output is not the byte sequence of the claim.
  And not every input that is not valid JSON ends in JSONDecodeError, the one exception
  line 134 catches. Bytes that do not decode raise UnicodeDecodeError. Text nested beyond
  the recursion limit raises RecursionError. The text \<open>NaN\<close> is not JSON, \<open>json.load\<close>
  returns a float for it, and \<open>input_data.get\<close> (line 139) raises AttributeError. In all
  three nothing is printed.
\<close>

theorem C8_counterexample_output_bytes:
  \<open>stdout (main (realpath project_fs) StdinMalformed Missing) = ''{"decision": "allow"}\<newline>''
   \<and> stdout (main (realpath project_fs) StdinMalformed Missing) \<noteq> ''{"decision":"allow"}''
   \<and> main (realpath project_fs) (StdinRaises UnicodeDecodeError) Missing =
       \<lparr>printed = [], store_after = Missing, raised = Some UnicodeDecodeError\<rparr>
   \<and> main (realpath project_fs) (StdinRaises RecursionError) Missing =
       \<lparr>printed = [], store_after = Missing, raised = Some RecursionError\<rparr>
   \<and> \<not> valid_json (JFloat NaN)
   \<and> main (realpath project_fs) (StdinJson (JFloat NaN)) Missing =
       \<lparr>printed = [], store_after = Missing, raised = Some AttributeError\<rparr>
   \<and> stdout (main (realpath project_fs) (StdinJson (JFloat NaN)) Missing) = []\<close>
  by code_simp

text \<open>
  C8, amended. Whenever \<open>json.load\<close> rejects the input with JSONDecodeError, in every
  process and on every store file, the run ends normally, the store file is untouched,
  exactly one document is printed, its decision is \<open>allow\<close>, and the whole output is the
  one line \<open>{"decision": "allow"}\<close>, a complete JSON document, and a newline.
\<close>

theorem C8_malformed_input_allows:
  \<open>main resolve StdinMalformed s =
     \<lparr>printed = [JDict [(''decision'', JStr ''allow'')]], store_after = s, raised = None\<rparr>
   \<and> stdout (main resolve StdinMalformed s) = ''{"decision": "allow"}\<newline>''\<close>
  by (simp add: main_def emit_def stdout_def allow_def dumps_str_def escape_char_def)

subsection \<open>The working directory\<close>

text \<open>
  C10. The decision depends on more than the request and the store file. The same request
  to write the test \<open>src/math.test.ts\<close>, on the same (absent) store file, records one path
  when run in \<open>/work/a\<close> and another when run in \<open>/work/b\<close>. And the same request to
  write \<open>src/math.ts\<close>, on the same store file, is allowed in \<open>/work/a\<close>, where the
  candidate \<open>src/math.test.ts\<close> resolves to the recorded path, and blocked in \<open>/work/b\<close>.
\<close>

theorem C10_decision_depends_on_working_directory:
  "store_after (main (realpath checkout_a) (write_request ''src/math.test.ts'') Missing) \<noteq>
     store_after (main (realpath checkout_b) (write_request ''src/math.test.ts'') Missing)
   \<and> printed (main (realpath checkout_a) (write_request ''src/math.ts'') shared_store) \<noteq>
       printed (main (realpath checkout_b) (write_request ''src/math.ts'') shared_store)
   \<and> store_after (main (realpath checkout_a) (write_request ''src/math.test.ts'') Missing) =
     shared_store
   \<and> store_after (main (realpath checkout_b) (write_request ''src/math.test.ts'') Missing) =
       Stored (JDict [(''test_files_modified'', JList [JStr ''/work/b/src/math.test.ts'']),
                      (''session_id'', JNull)])
   \<and> main (realpath checkout_a) (write_request ''src/math.ts'') shared_store =
       emit allow shared_store
   \<and> main (realpath checkout_b) (write_request ''src/math.ts'') shared_store =
       emit (block ''src/math.test.ts'') shared_store"
  by code_simp

subsection \<open>Two runs at once\<close>










subsection \<open>A store document of another shape\<close>

text \<open>
  C1. The claim is that a test write ends with exactly one Allow response whatever the
  store file holds. On a store file holding the empty object \<open>{}\<close> the test branch reads
  \<open>state["test_files_modified"]\<close> (line 152), KeyError escapes \<open>main\<close> and nothing is
  printed. The implementation branch reads the same key with
  \<open>state.get("test_files_modified", [])\<close> (line 165) and answers on that store.
\<close>

theorem C1_test_write_on_empty_object_raises:
  "main resolve (write_request ''src/utils/math.test.ts'') (Stored (JDict [])) =
     raise KeyError (Stored (JDict []))
   \<and> stdout (main resolve (write_request ''src/utils/math.test.ts'') (Stored (JDict []))) = []
   \<and> main resolve (write_request ''src/utils/math.ts'') (Stored (JDict [])) =
     emit (block ''src/utils/math.test.ts'') (Stored (JDict []))"
  using is_test_file_math_test is_impl_file_math is_impl_file_not_test [OF is_impl_file_math]
  by (simp add: main_def write_request_def enforce_def find_matching_tests_math stdout_def raise_def
      load_state_Stored)

end
